theory Spec2Isabelle
  imports Complex_Main
begin

section \<open>The NMS dispatch layer of \<^verbatim>\<open>mmdet/ops/nms/nms_wrapper.py\<close>\<close>

text \<open>
  The module holds the four entry points \<^verbatim>\<open>nms\<close>, \<^verbatim>\<open>soft_nms\<close>, \<^verbatim>\<open>oks_nms\<close> (defined
  twice) and \<^verbatim>\<open>oks_nms_vis\<close>. Each one normalises the container of the candidate set,
  picks a compiled suppression backend, and restores the caller's container on the way out.
  The compiled backends (\<^verbatim>\<open>nms_cpu\<close>, \<^verbatim>\<open>nms_cuda\<close>, \<^verbatim>\<open>soft_nms_cpu\<close>, \<^verbatim>\<open>oks_nms_cpu\<close>,
  \<^verbatim>\<open>oks_nms_cuda\<close>, \<^verbatim>\<open>oks_nms_py\<close>, \<^verbatim>\<open>oks_nms_vis_cuda\<close>) are imported by the module and are
  not part of it: they are parameters of the model.

  Element values are reals. Where the module converts values to an element type
  (\<^verbatim>\<open>astype\<close>, \<^verbatim>\<open>new_tensor\<close>, \<^verbatim>\<open>torch.FloatTensor\<close>, the float division of Python) the
  conversion is written out; what it does to a value is floating-point rounding, which is a
  parameter of the model as well.
\<close>

subsection \<open>Containers\<close>

datatype device = CPU | CUDA nat

datatype dtype = Float16 | Float32 | Float64 | Int32 | Int64

text \<open>
  A Python value handed to an entry point: a \<^verbatim>\<open>torch.Tensor\<close> (with the device it lives on),
  a \<^verbatim>\<open>numpy.ndarray\<close>, or a value of any other type (with the name of its type). A
  two-dimensional candidate set is the list of its rows; an index sequence is a list of ints.
\<close>

datatype 'a py_value =
    Tensor device dtype "'a list"
  | NdArray dtype "'a list"
  | Other string

type_synonym dets = "real list py_value"
type_synonym inds = "int py_value"

datatype error =
    TypeError string
  | ValueError string
  | IndexError
  | BackendError string

fun elems :: "'a py_value \<Rightarrow> 'a list" where
  "elems (Tensor dev dt xs) = xs"
| "elems (NdArray dt xs) = xs"
| "elems (Other ty) = []"

text \<open>\<^verbatim>\<open>x.shape[0]\<close>\<close>

definition shape0 :: "'a py_value \<Rightarrow> nat" where
  "shape0 x = length (elems x)"

text \<open>\<^verbatim>\<open>x.is_cuda\<close>\<close>

fun is_cuda :: "'a py_value \<Rightarrow> bool" where
  "is_cuda (Tensor (CUDA i) dt xs) = True"
| "is_cuda x = False"

fun device_of :: "'a py_value \<Rightarrow> device" where
  "device_of (Tensor dev dt xs) = dev"
| "device_of x = CPU"

fun dtype_of :: "'a py_value \<Rightarrow> dtype option" where
  "dtype_of (Tensor dev dt xs) = Some dt"
| "dtype_of (NdArray dt xs) = Some dt"
| "dtype_of (Other ty) = None"

text \<open>\<^verbatim>\<open>torch.from_numpy(x).to(device)\<close>\<close>

fun from_numpy_to :: "'a py_value \<Rightarrow> device \<Rightarrow> 'a py_value" where
  "from_numpy_to (NdArray dt xs) dev = Tensor dev dt xs"
| "from_numpy_to x dev = x"

text \<open>\<^verbatim>\<open>x.cpu().numpy()\<close> (and \<^verbatim>\<open>x.detach().cpu().numpy()\<close>)\<close>

fun cpu_numpy :: "'a py_value \<Rightarrow> 'a py_value" where
  "cpu_numpy (Tensor dev dt xs) = NdArray dt xs"
| "cpu_numpy x = x"

text \<open>
  \<^verbatim>\<open>x.new_zeros(0, dtype=torch.long)\<close> and \<^verbatim>\<open>x.new_tensor(v, dtype=torch.long)\<close>: a tensor of
  64-bit integers on the device of \<open>x\<close>. The compiled index-returning backends answer with such a
  tensor on the device of their input; \<open>long_tensor\<close> wraps the values they return.
\<close>

definition long_tensor :: "'a py_value \<Rightarrow> int list \<Rightarrow> inds" where
  "long_tensor x vs = Tensor (device_of x) Int64 vs"

definition new_zeros_long :: "'a py_value \<Rightarrow> inds" where
  "new_zeros_long x = long_tensor x []"

text \<open>
  \<^verbatim>\<open>x.new_tensor(v)\<close>: a tensor with the device and the element type of \<open>x\<close>, every value of
  \<open>v\<close> converted to that element type by \<open>cast\<close>.
\<close>

fun new_tensor :: "(dtype \<Rightarrow> real \<Rightarrow> real) \<Rightarrow> dets \<Rightarrow> real list list \<Rightarrow> dets" where
  "new_tensor cast (Tensor dev dt xs) vs = Tensor dev dt (map (map (cast dt)) vs)"
| "new_tensor cast x vs = x"

text \<open>
  \<^verbatim>\<open>x[inds, :]\<close>: the rows of \<open>x\<close> at the given positions, in a container like \<open>x\<close>. An index
  \<open>i\<close> with \<open>- n \<le> i < 0\<close> counts from the end; an index outside \<open>- n \<le> i < n\<close> raises.
\<close>

definition py_index :: "nat \<Rightarrow> int \<Rightarrow> nat" where
  "py_index n i = nat (if i < 0 then i + int n else i)"

definition index_ok :: "nat \<Rightarrow> int \<Rightarrow> bool" where
  "index_ok n i = (- int n \<le> i \<and> i < int n)"

fun with_elems :: "'a py_value \<Rightarrow> 'a list \<Rightarrow> 'a py_value" where
  "with_elems (Tensor dev dt xs) ys = Tensor dev dt ys"
| "with_elems (NdArray dt xs) ys = NdArray dt ys"
| "with_elems (Other ty) ys = Other ty"

definition getitem_rows :: "dets \<Rightarrow> inds \<Rightarrow> error + dets" where
  "getitem_rows x ix =
     (let n = shape0 x in
      if list_all (index_ok n) (elems ix)
      then Inr (with_elems x (map (\<lambda>i. elems x ! py_index n i) (elems ix)))
      else Inl IndexError)"

subsection \<open>The compiled backends and the record of their invocations\<close>

text \<open>
  Every backend may raise; the index-returning ones answer with the values of a tensor of kept
  positions, \<^verbatim>\<open>soft_nms_cpu\<close> with the rows it kept and their positions. The field \<open>astype\<close> is
  the value conversion of numpy and torch: \<open>astype B dt v\<close> is what the value \<open>v\<close> becomes
  when it is stored with element type \<open>dt\<close>.
\<close>

record backends =
  astype :: "dtype \<Rightarrow> real \<Rightarrow> real"
  nms_cuda_nms :: "dets \<Rightarrow> real \<Rightarrow> error + int list"
  nms_cpu_nms :: "dets \<Rightarrow> real \<Rightarrow> error + int list"
  soft_nms_cpu :: "dets \<Rightarrow> real \<Rightarrow> nat \<Rightarrow> real \<Rightarrow> real \<Rightarrow> error + real list list \<times> int list"
  oks_nms_cuda_oks_nms :: "dets \<Rightarrow> real \<Rightarrow> real list \<Rightarrow> error + int list"
  oks_nms_cpu_oks_nms :: "dets \<Rightarrow> real \<Rightarrow> real list \<Rightarrow> error + int list"
  oks_nms_py_oks_nms :: "dets \<Rightarrow> real \<Rightarrow> real list \<Rightarrow> error + int list"
  oks_nms_vis_cuda_oks_nms :: "dets \<Rightarrow> real \<Rightarrow> real \<Rightarrow> real list \<Rightarrow> error + int list"

text \<open>One constructor per backend function, with the arguments of the invocation.\<close>

datatype backend_call =
    NmsCuda dets real
  | NmsCpu dets real
  | SoftNmsCpu dets real nat real real
  | OksNmsCuda dets real "real list"
  | OksNmsCpu dets real "real list"
  | OksNmsPy dets real "real list"
  | OksNmsVisCuda dets real real "real list"

text \<open>
  A run of an entry point: the backend invocations it made, in order, and what it returned or
  raised.
\<close>

type_synonym 'a run = "backend_call list \<times> (error + 'a)"

subsection \<open>\<^verbatim>\<open>nms\<close> (lines 10 to 63)\<close>

definition nms :: "backends \<Rightarrow> dets \<Rightarrow> real \<Rightarrow> nat option \<Rightarrow> (dets \<times> inds) run" where
  "nms B dets iou_thr device_id =
     (case (case dets of
              Tensor dev dt rows \<Rightarrow> Inr (False, dets)
            | NdArray dt rows \<Rightarrow>
                Inr (True, from_numpy_to dets (case device_id of None \<Rightarrow> CPU | Some i \<Rightarrow> CUDA i))
            | Other ty \<Rightarrow>
                Inl (TypeError (''dets must be either a Tensor or numpy array, but got '' @ ty)))
      of
        Inl e \<Rightarrow> ([], Inl e)
      | Inr (is_numpy, dets_th) \<Rightarrow>
          (case (if shape0 dets_th = 0 then ([], Inr (new_zeros_long dets_th))
                 else if is_cuda dets_th
                   then ([NmsCuda dets_th iou_thr],
                         map_sum id (long_tensor dets_th) (nms_cuda_nms B dets_th iou_thr))
                   else ([NmsCpu dets_th iou_thr],
                         map_sum id (long_tensor dets_th) (nms_cpu_nms B dets_th iou_thr)))
           of
             (calls, Inl e) \<Rightarrow> (calls, Inl e)
           | (calls, Inr inds_th) \<Rightarrow>
               (let inds = (if is_numpy then cpu_numpy inds_th else inds_th) in
                case getitem_rows dets inds of
                  Inl e \<Rightarrow> (calls, Inl e)
                | Inr kept \<Rightarrow> (calls, Inr (kept, inds)))))"

subsection \<open>\<^verbatim>\<open>soft_nms\<close> (lines 66 to 104)\<close>

text \<open>The dict \<^verbatim>\<open>{'linear': 1, 'gaussian': 2}\<close>\<close>

definition method_codes :: "string \<rightharpoonup> nat" where
  "method_codes = [''linear'' \<mapsto> 1, ''gaussian'' \<mapsto> 2]"

definition soft_nms ::
  "backends \<Rightarrow> dets \<Rightarrow> real \<Rightarrow> string \<Rightarrow> real \<Rightarrow> real \<Rightarrow> (dets \<times> inds) run" where
  "soft_nms B dets iou_thr method sigma min_score =
     (case (case dets of
              Tensor dev dt rows \<Rightarrow> Inr (True, cpu_numpy dets)
            | NdArray dt rows \<Rightarrow> Inr (False, dets)
            | Other ty \<Rightarrow>
                Inl (TypeError (''dets must be either a Tensor or numpy array, but got '' @ ty)))
      of
        Inl e \<Rightarrow> ([], Inl e)
      | Inr (is_tensor, dets_np) \<Rightarrow>
          (case method_codes method of
             None \<Rightarrow> ([], Inl (ValueError (''Invalid method for SoftNMS: '' @ method)))
           | Some code \<Rightarrow>
               ([SoftNmsCpu dets_np iou_thr code sigma min_score],
                case soft_nms_cpu B dets_np iou_thr code sigma min_score of
                  Inl e \<Rightarrow> Inl e
                | Inr (new_dets, inds) \<Rightarrow>
                    (if is_tensor
                     then Inr (new_tensor (astype B) dets new_dets, long_tensor dets inds)
                     else Inr (NdArray Float32 (map (map (astype B Float32)) new_dets),
                               NdArray Int64 inds)))))"

text \<open>
  In the three keypoint entry points the caller's sigmas are divided by ten, each quotient a
  Python float, and packed into a float32 tensor before anything else happens. On the host branch the Python implementation
  \<^verbatim>\<open>oks_nms_py.oks_nms\<close> runs after the compiled one; its answer \<^verbatim>\<open>inds_py\<close> is not used, an
  error it raises is.
\<close>

subsection \<open>\<^verbatim>\<open>oks_nms\<close> (the first definition, lines 107 to 163)\<close>

definition oks_nms_shadowed ::
  "backends \<Rightarrow> dets \<Rightarrow> real \<Rightarrow> real list \<Rightarrow> nat option \<Rightarrow> (dets \<times> inds) run" where
  "oks_nms_shadowed B kpts iou_thr sigmas device_id =
     (let sigmas_py = map (\<lambda>s. astype B Float64 (s / 10)) sigmas;
          sigmas_th = map (astype B Float32) sigmas_py in
      case (case kpts of
              Tensor dev dt rows \<Rightarrow> Inr (False, kpts)
            | NdArray dt rows \<Rightarrow>
                Inr (True, from_numpy_to kpts (case device_id of None \<Rightarrow> CPU | Some i \<Rightarrow> CUDA i))
            | Other ty \<Rightarrow>
                Inl (TypeError (''kpts must be either a Tensor or numpy array, but got '' @ ty)))
      of
        Inl e \<Rightarrow> ([], Inl e)
      | Inr (is_numpy, kpts_th) \<Rightarrow>
          (case (if shape0 kpts_th = 0 then ([], Inr (new_zeros_long kpts_th))
                 else if is_cuda kpts_th
                   then ([OksNmsCuda kpts_th iou_thr sigmas_th],
                         map_sum id (long_tensor kpts_th)
                           (oks_nms_cuda_oks_nms B kpts_th iou_thr sigmas_th))
                   else (case oks_nms_cpu_oks_nms B kpts_th iou_thr sigmas_th of
                           Inl e \<Rightarrow> ([OksNmsCpu kpts_th iou_thr sigmas_th], Inl e)
                         | Inr inds_cpu \<Rightarrow>
                             ([OksNmsCpu kpts_th iou_thr sigmas_th,
                               OksNmsPy (cpu_numpy kpts_th) iou_thr sigmas_th],
                              case oks_nms_py_oks_nms B (cpu_numpy kpts_th) iou_thr sigmas_th of
                                Inl e \<Rightarrow> Inl e
                              | Inr inds_py \<Rightarrow> Inr (long_tensor kpts_th inds_cpu))))
           of
             (calls, Inl e) \<Rightarrow> (calls, Inl e)
           | (calls, Inr inds_th) \<Rightarrow>
               (let inds = (if is_numpy then cpu_numpy inds_th else inds_th) in
                case getitem_rows kpts inds of
                  Inl e \<Rightarrow> (calls, Inl e)
                | Inr kept \<Rightarrow> (calls, Inr (kept, inds)))))"

subsection \<open>\<^verbatim>\<open>oks_nms\<close> (the second definition, lines 166 to 222)\<close>

definition oks_nms ::
  "backends \<Rightarrow> dets \<Rightarrow> real \<Rightarrow> real list \<Rightarrow> nat option \<Rightarrow> (dets \<times> inds) run" where
  "oks_nms B kpts iou_thr sigmas device_id =
     (let sigmas_py = map (\<lambda>s. astype B Float64 (s / 10)) sigmas;
          sigmas_th = map (astype B Float32) sigmas_py in
      case (case kpts of
              Tensor dev dt rows \<Rightarrow> Inr (False, kpts)
            | NdArray dt rows \<Rightarrow>
                Inr (True, from_numpy_to kpts (case device_id of None \<Rightarrow> CPU | Some i \<Rightarrow> CUDA i))
            | Other ty \<Rightarrow>
                Inl (TypeError (''kpts must be either a Tensor or numpy array, but got '' @ ty)))
      of
        Inl e \<Rightarrow> ([], Inl e)
      | Inr (is_numpy, kpts_th) \<Rightarrow>
          (case (if shape0 kpts_th = 0 then ([], Inr (new_zeros_long kpts_th))
                 else if is_cuda kpts_th
                   then ([OksNmsCuda kpts_th iou_thr sigmas_th],
                         map_sum id (long_tensor kpts_th)
                           (oks_nms_cuda_oks_nms B kpts_th iou_thr sigmas_th))
                   else (case oks_nms_cpu_oks_nms B kpts_th iou_thr sigmas_th of
                           Inl e \<Rightarrow> ([OksNmsCpu kpts_th iou_thr sigmas_th], Inl e)
                         | Inr inds_cpu \<Rightarrow>
                             ([OksNmsCpu kpts_th iou_thr sigmas_th,
                               OksNmsPy (cpu_numpy kpts_th) iou_thr sigmas_th],
                              case oks_nms_py_oks_nms B (cpu_numpy kpts_th) iou_thr sigmas_th of
                                Inl e \<Rightarrow> Inl e
                              | Inr inds_py \<Rightarrow> Inr (long_tensor kpts_th inds_cpu))))
           of
             (calls, Inl e) \<Rightarrow> (calls, Inl e)
           | (calls, Inr inds_th) \<Rightarrow>
               (let inds = (if is_numpy then cpu_numpy inds_th else inds_th) in
                case getitem_rows kpts inds of
                  Inl e \<Rightarrow> (calls, Inl e)
                | Inr kept \<Rightarrow> (calls, Inr (kept, inds)))))"

subsection \<open>\<^verbatim>\<open>oks_nms_vis\<close> (lines 225 to 281)\<close>

definition oks_nms_vis ::
  "backends \<Rightarrow> dets \<Rightarrow> real \<Rightarrow> real list \<Rightarrow> real \<Rightarrow> nat option \<Rightarrow> (dets \<times> inds) run" where
  "oks_nms_vis B kpts iou_thr sigmas vis_thr device_id =
     (let sigmas_py = map (\<lambda>s. astype B Float64 (s / 10)) sigmas;
          sigmas_th = map (astype B Float32) sigmas_py in
      case (case kpts of
              Tensor dev dt rows \<Rightarrow> Inr (False, kpts)
            | NdArray dt rows \<Rightarrow>
                Inr (True, from_numpy_to kpts (case device_id of None \<Rightarrow> CPU | Some i \<Rightarrow> CUDA i))
            | Other ty \<Rightarrow>
                Inl (TypeError (''kpts must be either a Tensor or numpy array, but got '' @ ty)))
      of
        Inl e \<Rightarrow> ([], Inl e)
      | Inr (is_numpy, kpts_th) \<Rightarrow>
          (case (if shape0 kpts_th = 0 then ([], Inr (new_zeros_long kpts_th))
                 else if is_cuda kpts_th
                   then ([OksNmsVisCuda kpts_th iou_thr vis_thr sigmas_th],
                         map_sum id (long_tensor kpts_th)
                           (oks_nms_vis_cuda_oks_nms B kpts_th iou_thr vis_thr sigmas_th))
                   else (case oks_nms_cpu_oks_nms B kpts_th iou_thr sigmas_th of
                           Inl e \<Rightarrow> ([OksNmsCpu kpts_th iou_thr sigmas_th], Inl e)
                         | Inr inds_cpu \<Rightarrow>
                             ([OksNmsCpu kpts_th iou_thr sigmas_th,
                               OksNmsPy (cpu_numpy kpts_th) iou_thr sigmas_th],
                              case oks_nms_py_oks_nms B (cpu_numpy kpts_th) iou_thr sigmas_th of
                                Inl e \<Rightarrow> Inl e
                              | Inr inds_py \<Rightarrow> Inr (long_tensor kpts_th inds_cpu))))
           of
             (calls, Inl e) \<Rightarrow> (calls, Inl e)
           | (calls, Inr inds_th) \<Rightarrow>
               (let inds = (if is_numpy then cpu_numpy inds_th else inds_th) in
                case getitem_rows kpts inds of
                  Inl e \<Rightarrow> (calls, Inl e)
                | Inr kept \<Rightarrow> (calls, Inr (kept, inds)))))"

section \<open>The suppression backends, as the specification describes them\<close>

text \<open>
  The compiled extensions are not among the sources. Where a property of an entry point is
  decided inside one of them, or an entry point has to be run on an example, the backend is
  taken from the specification. A row of a box candidate set is \<open>[x1, y1, x2, y2, score]\<close>, as
  in the examples of the docstrings. The loops are written over any overlap measure \<open>ov\<close>.
\<close>

definition score :: "real list \<Rightarrow> real" where
  "score r = r ! 4"

text \<open>
  Modelled from the spec: the overlap engine inside the compiled backends (section 4.1):
  intersection area divided by union area, and 0 when the boxes do not overlap or either has
  non-positive area.
\<close>

definition iou :: "real list \<Rightarrow> real list \<Rightarrow> real" where
  "iou a b =
     (let area_a = (a ! 2 - a ! 0) * (a ! 3 - a ! 1);
          area_b = (b ! 2 - b ! 0) * (b ! 3 - b ! 1);
          iw = min (a ! 2) (b ! 2) - max (a ! 0) (b ! 0);
          ih = min (a ! 3) (b ! 3) - max (a ! 1) (b ! 1)
      in if iw \<le> 0 \<or> ih \<le> 0 \<or> area_a \<le> 0 \<or> area_b \<le> 0 then 0
         else iw * ih / (area_a + area_b - iw * ih))"

text \<open>
  The candidates of a set with their 0-based positions, and the stable sort by descending
  score of sections 4.2 and 4.3 (ties keep the input order).
\<close>

definition enumerate_rows :: "dets \<Rightarrow> (int \<times> real list) list" where
  "enumerate_rows boxes = zip (map int [0..<shape0 boxes]) (elems boxes)"

definition by_score :: "(int \<times> real list) list \<Rightarrow> (int \<times> real list) list" where
  "by_score cs = sort_key (\<lambda>c. - score (snd c)) cs"

text \<open>
  Modelled from the spec: the score-decay policies of \<^verbatim>\<open>soft_nms_cpu\<close> (section 4.3). The codes
  are the ones \<^verbatim>\<open>method_codes\<close> assigns.
\<close>

datatype decay = Linear | Gaussian

definition decay_of_code :: "nat \<Rightarrow> decay option" where
  "decay_of_code c = (if c = 1 then Some Linear else if c = 2 then Some Gaussian else None)"

fun weight :: "decay \<Rightarrow> real \<Rightarrow> real \<Rightarrow> real \<Rightarrow> real" where
  "weight Linear iou_thr sigma v = (if v > iou_thr then 1 - v else 1)"
| "weight Gaussian iou_thr sigma v = exp (- (v * v) / sigma)"

text \<open>
  Modelled from the spec: the loop of \<^verbatim>\<open>soft_nms_cpu\<close> (section 4.3). The remaining candidates
  are sorted again at every step; the best one is finalized with the score it has then; the
  score of each other one is rescaled by the decay weight of its overlap with the best one,
  and a candidate whose score fell below \<open>min_score\<close> is dropped for good.
\<close>

definition rescore ::
  "(real list \<Rightarrow> real list \<Rightarrow> real) \<Rightarrow> decay \<Rightarrow> real \<Rightarrow> real \<Rightarrow> real list \<Rightarrow>
   int \<times> real list \<Rightarrow> int \<times> real list" where
  "rescore ov d iou_thr sigma best c =
     (fst c, (snd c)[4 := score (snd c) * weight d iou_thr sigma (ov best (snd c))])"

function soft_select ::
  "(real list \<Rightarrow> real list \<Rightarrow> real) \<Rightarrow> decay \<Rightarrow> real \<Rightarrow> real \<Rightarrow> real \<Rightarrow>
   (int \<times> real list) list \<Rightarrow> (int \<times> real list) list" where
  "soft_select ov d iou_thr sigma min_score cs =
     (case by_score cs of
        [] \<Rightarrow> []
      | best # rest \<Rightarrow>
          best # soft_select ov d iou_thr sigma min_score
                   (filter (\<lambda>c. \<not> score (snd c) < min_score)
                      (map (rescore ov d iou_thr sigma (snd best)) rest)))"
  by pat_completeness auto
termination
proof (relation "measure (\<lambda>(ov, d, iou_thr, sigma, min_score, cs). length cs)")
  show "wf (measure (\<lambda>(ov, d, iou_thr, sigma, min_score, cs). length cs))"
    by simp
next
  fix ov :: "real list \<Rightarrow> real list \<Rightarrow> real" and d :: decay and iou_thr sigma min_score :: real
    and cs rest :: "(int \<times> real list) list" and best :: "int \<times> real list"
  assume sorted: "by_score cs = best # rest"
  have "length (by_score cs) = length cs"
    by (simp add: by_score_def)
  with sorted have less: "length rest < length cs"
    by simp
  have "length (filter (\<lambda>c. \<not> score (snd c) < min_score)
          (map (rescore ov d iou_thr sigma (snd best)) rest))
        \<le> length (map (rescore ov d iou_thr sigma (snd best)) rest)"
    by (rule length_filter_le)
  then have "length (filter (\<lambda>c. \<not> score (snd c) < min_score)
               (map (rescore ov d iou_thr sigma (snd best)) rest)) \<le> length rest"
    by (simp only: length_map)
  then have "length (filter (\<lambda>c. \<not> score (snd c) < min_score)
               (map (rescore ov d iou_thr sigma (snd best)) rest)) < length cs"
    using less by (rule le_less_trans)
  then show "((ov, d, iou_thr, sigma, min_score,
               filter (\<lambda>c. \<not> score (snd c) < min_score)
                 (map (rescore ov d iou_thr sigma (snd best)) rest)),
              (ov, d, iou_thr, sigma, min_score, cs))
             \<in> measure (\<lambda>(ov, d, iou_thr, sigma, min_score, cs). length cs)"
    by (simp only: in_measure prod.case)
qed

declare soft_select.simps [simp del]

text \<open>
  Modelled from the spec: \<^verbatim>\<open>soft_nms_cpu(boxes, iou_thr, method, sigma, min_score)\<close>, which
  returns the kept candidates with their decayed scores and their original positions, in the
  order they were finalized. A row too short to hold a score raises, as reading it would.
\<close>

definition soft_nms_cpu_spec ::
  "(real list \<Rightarrow> real list \<Rightarrow> real) \<Rightarrow>
   dets \<Rightarrow> real \<Rightarrow> nat \<Rightarrow> real \<Rightarrow> real \<Rightarrow> error + real list list \<times> int list" where
  "soft_nms_cpu_spec ov boxes iou_thr method sigma min_score =
     (case decay_of_code method of
        None \<Rightarrow> Inl (ValueError ''unknown decay method code'')
      | Some d \<Rightarrow>
          if list_all (\<lambda>r. 5 \<le> length r) (elems boxes)
          then (let out = soft_select ov d iou_thr sigma min_score (enumerate_rows boxes)
                in Inr (map snd out, map fst out))
          else Inl IndexError)"

text \<open>
  Modelled from the spec: the greedy loop of \<^verbatim>\<open>nms_cpu.nms\<close> and \<^verbatim>\<open>nms_cuda.nms\<close> (section
  4.2): sort once, keep the best candidate, remove every remaining one whose overlap with it
  exceeds the threshold, continue.
\<close>

fun greedy_select ::
  "(real list \<Rightarrow> real list \<Rightarrow> real) \<Rightarrow> real \<Rightarrow> (int \<times> real list) list \<Rightarrow>
   (int \<times> real list) list" where
  "greedy_select ov iou_thr [] = []"
| "greedy_select ov iou_thr (c # cs) =
     c # greedy_select ov iou_thr (filter (\<lambda>d. \<not> ov (snd c) (snd d) > iou_thr) cs)"

definition nms_spec :: "(real list \<Rightarrow> real list \<Rightarrow> real) \<Rightarrow> dets \<Rightarrow> real \<Rightarrow> error + int list" where
  "nms_spec ov boxes iou_thr =
     (if list_all (\<lambda>r. 5 \<le> length r) (elems boxes)
      then Inr (map fst (greedy_select ov iou_thr (by_score (enumerate_rows boxes))))
      else Inl IndexError)"

text \<open>
  Modelled from the spec: the keypoint backends \<^verbatim>\<open>oks_nms_cpu\<close>, \<^verbatim>\<open>oks_nms_cuda\<close>,
  \<^verbatim>\<open>oks_nms_py\<close> and \<^verbatim>\<open>oks_nms_vis_cuda\<close> (section 4.4) have the greedy structure of hard NMS
  with the OKS measure. Neither the sources nor the specification give the layout of a
  keypoint row, so the measure is not modelled: \<open>oks_greedy_only\<close> answers where the greedy
  structure alone decides (no candidate, or a single one, which is kept) and raises otherwise.
\<close>

definition oks_greedy_only :: "dets \<Rightarrow> error + int list" where
  "oks_greedy_only kpts =
     (if shape0 kpts \<le> 1 then Inr (map int [0..<shape0 kpts])
      else Inl (BackendError ''OKS measure not modelled''))"

definition spec_backends :: backends where
  "spec_backends =
     \<lparr> astype = (\<lambda>dt v. v),
       nms_cuda_nms = nms_spec iou,
       nms_cpu_nms = nms_spec iou,
       soft_nms_cpu = soft_nms_cpu_spec iou,
       oks_nms_cuda_oks_nms = (\<lambda>kpts iou_thr sigmas. oks_greedy_only kpts),
       oks_nms_cpu_oks_nms = (\<lambda>kpts iou_thr sigmas. oks_greedy_only kpts),
       oks_nms_py_oks_nms = (\<lambda>kpts iou_thr sigmas. oks_greedy_only kpts),
       oks_nms_vis_cuda_oks_nms = (\<lambda>kpts iou_thr vis_thr sigmas. oks_greedy_only kpts) \<rparr>"







section \<open>The vocabulary of the properties\<close>


text \<open>The representation family of a value.\<close>

datatype family = TensorFamily | ArrayFamily

fun family_of :: "'a py_value \<Rightarrow> family option" where
  "family_of (Tensor dev dt xs) = Some TensorFamily"
| "family_of (NdArray dt xs) = Some ArrayFamily"
| "family_of (Other ty) = None"



text \<open>The visibility threshold handed to a backend, when it takes one.\<close>

fun call_vis_thr :: "backend_call \<Rightarrow> real option" where
  "call_vis_thr (OksNmsVisCuda k t v s) = Some v"
| "call_vis_thr c = None"


text \<open>
  The sigma tensor that the keypoint entry points build in the first two lines of their body,
  and their last line, \<^verbatim>\<open>return kpts[inds, :], inds\<close>.
\<close>

definition sigmas_tensor :: "backends \<Rightarrow> real list \<Rightarrow> real list" where
  "sigmas_tensor B sigmas = map (astype B Float32) (map (\<lambda>s. astype B Float64 (s / 10)) sigmas)"

definition kept_at :: "dets \<Rightarrow> inds \<Rightarrow> error + dets \<times> inds" where
  "kept_at x ix = (case getitem_rows x ix of Inl e \<Rightarrow> Inl e | Inr kept \<Rightarrow> Inr (kept, ix))"



text \<open>
  A candidate with its decayed score. \<open>decay_through ov d iou_thr sigma hist r\<close> is the row
  \<open>r\<close> after its score was rescaled, in turn, by the decay weight of its overlap with each row
  of \<open>hist\<close>. \<open>decayed_from\<close> reads a sequence of finalized candidates from left to right: each
  one sits at a position of \<open>rows\<close> counted from 0 and is the row there, decayed through the
  candidates finalized before it, as they were finalized. \<open>decayed_rows_at\<close> says so of the rows
  and indices that soft NMS returns, the indices being distinct; \<open>carries\<close> is the same fact
  about a candidate that is still waiting.
\<close>

fun decay_through ::
  "(real list \<Rightarrow> real list \<Rightarrow> real) \<Rightarrow> decay \<Rightarrow> real \<Rightarrow> real \<Rightarrow> real list list \<Rightarrow> real list \<Rightarrow>
   real list" where
  "decay_through ov d iou_thr sigma [] r = r"
| "decay_through ov d iou_thr sigma (b # bs) r =
     decay_through ov d iou_thr sigma bs (r[4 := score r * weight d iou_thr sigma (ov b r)])"

fun decayed_from ::
  "(real list \<Rightarrow> real list \<Rightarrow> real) \<Rightarrow> decay \<Rightarrow> real \<Rightarrow> real \<Rightarrow> real list list \<Rightarrow> real list list \<Rightarrow>
   (int \<times> real list) list \<Rightarrow> bool" where
  "decayed_from ov d iou_thr sigma rows hist [] = True"
| "decayed_from ov d iou_thr sigma rows hist (c # cs) =
     (0 \<le> fst c \<and> fst c < int (length rows)
      \<and> snd c = decay_through ov d iou_thr sigma hist (rows ! nat (fst c))
      \<and> decayed_from ov d iou_thr sigma rows (hist @ [snd c]) cs)"

definition decayed_rows_at ::
  "(real list \<Rightarrow> real list \<Rightarrow> real) \<Rightarrow> decay \<Rightarrow> real \<Rightarrow> real \<Rightarrow> dets \<Rightarrow> real list list \<Rightarrow>
   int list \<Rightarrow> bool" where
  "decayed_rows_at ov d iou_thr sigma x new_dets vs =
     (length new_dets = length vs \<and> distinct vs
      \<and> decayed_from ov d iou_thr sigma (elems x) [] (zip vs new_dets))"


section \<open>Properties of the entry points\<close>

subsection \<open>Running the entry points on examples\<close>

text \<open>The equations that evaluate a run on concrete candidates.\<close>

lemmas run_simps =
  nms_def soft_nms_def oks_nms_def oks_nms_vis_def Let_def
  spec_backends_def nms_spec_def soft_nms_cpu_spec_def oks_greedy_only_def
  method_codes_def decay_of_code_def shape0_def enumerate_rows_def by_score_def rescore_def
  score_def iou_def upt_rec getitem_rows_def long_tensor_def new_zeros_long_def index_ok_def
  py_index_def soft_select.simps


lemma map_sum_id_Inr: "map_sum id f s = Inr y \<longleftrightarrow> (\<exists>v. s = Inr v \<and> y = f v)"
  by (cases s) auto

subsection \<open>Rejected inputs\<close>

text \<open>
  Claim C7. A candidate set that is neither a tensor nor a numpy array makes every entry point
  raise \<^verbatim>\<open>TypeError\<close>, and no backend has been invoked when it does: the run has no
  invocation, whatever the backends and the other arguments are.
\<close>

theorem type_error_before_any_backend:
  "nms B (Other ty) iou_thr device_id =
     ([], Inl (TypeError (''dets must be either a Tensor or numpy array, but got '' @ ty)))
   \<and> soft_nms B (Other ty) iou_thr method sigma min_score =
     ([], Inl (TypeError (''dets must be either a Tensor or numpy array, but got '' @ ty)))
   \<and> oks_nms_shadowed B (Other ty) iou_thr sigmas device_id =
     ([], Inl (TypeError (''kpts must be either a Tensor or numpy array, but got '' @ ty)))
   \<and> oks_nms B (Other ty) iou_thr sigmas device_id =
     ([], Inl (TypeError (''kpts must be either a Tensor or numpy array, but got '' @ ty)))
   \<and> oks_nms_vis B (Other ty) iou_thr sigmas vis_thr device_id =
     ([], Inl (TypeError (''kpts must be either a Tensor or numpy array, but got '' @ ty)))"
  by (simp add: nms_def soft_nms_def oks_nms_shadowed_def oks_nms_def oks_nms_vis_def)

lemma method_codes_None:
  "method \<noteq> ''linear'' \<Longrightarrow> method \<noteq> ''gaussian'' \<Longrightarrow> method_codes method = None"
  by (simp add: method_codes_def)

text \<open>
  Claim C6. With a method name other than \<^verbatim>\<open>'linear'\<close> and \<^verbatim>\<open>'gaussian'\<close>, \<^verbatim>\<open>soft_nms\<close> on a
  tensor or a numpy array raises \<^verbatim>\<open>ValueError\<close> naming the method, and no backend has been
  invoked: no decay method is substituted for the unknown one. (The container check comes
  first in the source, so a candidate set of another type raises \<^verbatim>\<open>TypeError\<close> instead.)
\<close>

theorem unknown_method_rejected:
  assumes "method \<noteq> ''linear''" and "method \<noteq> ''gaussian''"
  shows "soft_nms B (Tensor dev dt rows) iou_thr method sigma min_score =
           ([], Inl (ValueError (''Invalid method for SoftNMS: '' @ method)))
         \<and> soft_nms B (NdArray dt rows) iou_thr method sigma min_score =
           ([], Inl (ValueError (''Invalid method for SoftNMS: '' @ method)))"
  using assms by (simp add: soft_nms_def method_codes_None)

theorem unknown_method_rejected_witness:
  "''hard'' \<noteq> ''linear'' \<and> ''hard'' \<noteq> ''gaussian''
   \<and> soft_nms spec_backends (Tensor (CUDA 0) Float32 [[0, 0, 2, 2, 9 / 10]])
         (7 / 10) ''hard'' (1 / 2) (1 / 1000) =
       ([], Inl (ValueError ''Invalid method for SoftNMS: hard''))
   \<and> soft_nms spec_backends (NdArray Float32 [[0, 0, 2, 2, 9 / 10]])
         (7 / 10) ''hard'' (1 / 2) (1 / 1000) =
       ([], Inl (ValueError ''Invalid method for SoftNMS: hard''))"
  using unknown_method_rejected
    [of "''hard''" spec_backends "CUDA 0" Float32 "[[0, 0, 2, 2, 9 / 10]]"
        "7 / 10" "1 / 2" "1 / 1000"]
  by simp

subsection \<open>The keypoint entry points\<close>

text \<open>
  Claim C9. The two definitions of \<^verbatim>\<open>oks_nms\<close> in the module, the one at lines 107 to 163
  and the one at lines 166 to 222 that replaces it at import time, are the same function:
  they make the same invocations and return or raise the same on every input and with
  every set of backends.
\<close>

theorem oks_nms_definitions_agree: "oks_nms_shadowed = oks_nms"
  by (intro ext) (simp only: oks_nms_shadowed_def oks_nms_def)

text \<open>
  Claim C1, where the source falls short of it. On the host branch, that is for a tensor on the
  CPU and for a numpy array without \<^verbatim>\<open>device_id\<close>, \<^verbatim>\<open>oks_nms_vis\<close> is \<^verbatim>\<open>oks_nms\<close>: it invokes
  \<^verbatim>\<open>oks_nms_cpu.oks_nms\<close> and \<^verbatim>\<open>oks_nms_py.oks_nms\<close>, no invocation carries a visibility
  threshold, and \<^verbatim>\<open>vis_thr\<close> has no part in the result. Only the CUDA branch hands \<^verbatim>\<open>vis_thr\<close>
  to a backend, \<^verbatim>\<open>oks_nms_vis_cuda.oks_nms\<close>.
\<close>

theorem host_branch_of_oks_nms_vis_is_oks_nms:
  "oks_nms_vis B (Tensor CPU dt rows) iou_thr sigmas vis_thr device_id =
     oks_nms B (Tensor CPU dt rows) iou_thr sigmas device_id
   \<and> oks_nms_vis B (NdArray dt rows) iou_thr sigmas vis_thr None =
     oks_nms B (NdArray dt rows) iou_thr sigmas None
   \<and> list_all (\<lambda>c. call_vis_thr c = None)
       (fst (oks_nms_vis B (Tensor CPU dt rows) iou_thr sigmas vis_thr device_id))
   \<and> list_all (\<lambda>c. call_vis_thr c = None)
       (fst (oks_nms_vis B (NdArray dt rows) iou_thr sigmas vis_thr None))
   \<and> fst (oks_nms_vis B (Tensor (CUDA i) dt (r # rows)) iou_thr sigmas vis_thr device_id) =
       [OksNmsVisCuda (Tensor (CUDA i) dt (r # rows)) iou_thr vis_thr
          (map (astype B Float32) (map (\<lambda>s. astype B Float64 (s / 10)) sigmas))]"
  by (auto simp: oks_nms_vis_def oks_nms_def Let_def shape0_def split: sum.splits)

lemma oks_nms_shadowed_eq:
  "oks_nms_shadowed B kpts iou_thr sigmas device_id = oks_nms B kpts iou_thr sigmas device_id"
  by (simp only: oks_nms_shadowed_def oks_nms_def)

lemma oks_nms_cuda_run:
  "oks_nms B (Tensor (CUDA i) dt (r # rows)) iou_thr sigmas device_id =
     ([OksNmsCuda (Tensor (CUDA i) dt (r # rows)) iou_thr (sigmas_tensor B sigmas)],
      case oks_nms_cuda_oks_nms B (Tensor (CUDA i) dt (r # rows)) iou_thr (sigmas_tensor B sigmas) of
        Inl e \<Rightarrow> Inl e
      | Inr vs \<Rightarrow> kept_at (Tensor (CUDA i) dt (r # rows)) (Tensor (CUDA i) Int64 vs))"
  by (simp add: oks_nms_def Let_def shape0_def sigmas_tensor_def kept_at_def long_tensor_def
      split: sum.splits)

lemma oks_nms_cuda_run_numpy:
  "oks_nms B (NdArray dt (r # rows)) iou_thr sigmas (Some i) =
     ([OksNmsCuda (Tensor (CUDA i) dt (r # rows)) iou_thr (sigmas_tensor B sigmas)],
      case oks_nms_cuda_oks_nms B (Tensor (CUDA i) dt (r # rows)) iou_thr (sigmas_tensor B sigmas) of
        Inl e \<Rightarrow> Inl e
      | Inr vs \<Rightarrow> kept_at (NdArray dt (r # rows)) (NdArray Int64 vs))"
  by (simp add: oks_nms_def Let_def shape0_def sigmas_tensor_def kept_at_def long_tensor_def
      split: sum.splits)

lemma oks_nms_host_run:
  "oks_nms B (Tensor CPU dt (r # rows)) iou_thr sigmas device_id =
     (case oks_nms_cpu_oks_nms B (Tensor CPU dt (r # rows)) iou_thr (sigmas_tensor B sigmas) of
        Inl e \<Rightarrow> ([OksNmsCpu (Tensor CPU dt (r # rows)) iou_thr (sigmas_tensor B sigmas)], Inl e)
      | Inr vs \<Rightarrow>
          ([OksNmsCpu (Tensor CPU dt (r # rows)) iou_thr (sigmas_tensor B sigmas),
            OksNmsPy (NdArray dt (r # rows)) iou_thr (sigmas_tensor B sigmas)],
           case oks_nms_py_oks_nms B (NdArray dt (r # rows)) iou_thr (sigmas_tensor B sigmas) of
             Inl e \<Rightarrow> Inl e
           | Inr vs_py \<Rightarrow> kept_at (Tensor CPU dt (r # rows)) (Tensor CPU Int64 vs)))"
  by (simp add: oks_nms_def Let_def shape0_def sigmas_tensor_def kept_at_def long_tensor_def
      split: sum.splits)

lemma oks_nms_host_run_numpy:
  "oks_nms B (NdArray dt (r # rows)) iou_thr sigmas None =
     (case oks_nms_cpu_oks_nms B (Tensor CPU dt (r # rows)) iou_thr (sigmas_tensor B sigmas) of
        Inl e \<Rightarrow> ([OksNmsCpu (Tensor CPU dt (r # rows)) iou_thr (sigmas_tensor B sigmas)], Inl e)
      | Inr vs \<Rightarrow>
          ([OksNmsCpu (Tensor CPU dt (r # rows)) iou_thr (sigmas_tensor B sigmas),
            OksNmsPy (NdArray dt (r # rows)) iou_thr (sigmas_tensor B sigmas)],
           case oks_nms_py_oks_nms B (NdArray dt (r # rows)) iou_thr (sigmas_tensor B sigmas) of
             Inl e \<Rightarrow> Inl e
           | Inr vs_py \<Rightarrow> kept_at (NdArray dt (r # rows)) (NdArray Int64 vs)))"
  by (simp add: oks_nms_def Let_def shape0_def sigmas_tensor_def kept_at_def long_tensor_def
      split: sum.splits)

lemma oks_nms_vis_cuda_run:
  "oks_nms_vis B (Tensor (CUDA i) dt (r # rows)) iou_thr sigmas vis_thr device_id =
     ([OksNmsVisCuda (Tensor (CUDA i) dt (r # rows)) iou_thr vis_thr (sigmas_tensor B sigmas)],
      case oks_nms_vis_cuda_oks_nms B (Tensor (CUDA i) dt (r # rows)) iou_thr vis_thr
             (sigmas_tensor B sigmas) of
        Inl e \<Rightarrow> Inl e
      | Inr vs \<Rightarrow> kept_at (Tensor (CUDA i) dt (r # rows)) (Tensor (CUDA i) Int64 vs))"
  by (simp add: oks_nms_vis_def Let_def shape0_def sigmas_tensor_def kept_at_def long_tensor_def
      split: sum.splits)

lemma oks_nms_vis_cuda_run_numpy:
  "oks_nms_vis B (NdArray dt (r # rows)) iou_thr sigmas vis_thr (Some i) =
     ([OksNmsVisCuda (Tensor (CUDA i) dt (r # rows)) iou_thr vis_thr (sigmas_tensor B sigmas)],
      case oks_nms_vis_cuda_oks_nms B (Tensor (CUDA i) dt (r # rows)) iou_thr vis_thr
             (sigmas_tensor B sigmas) of
        Inl e \<Rightarrow> Inl e
      | Inr vs \<Rightarrow> kept_at (NdArray dt (r # rows)) (NdArray Int64 vs))"
  by (simp add: oks_nms_vis_def Let_def shape0_def sigmas_tensor_def kept_at_def long_tensor_def
      split: sum.splits)

lemma oks_nms_vis_host_run:
  "oks_nms_vis B (Tensor CPU dt rows) iou_thr sigmas vis_thr device_id =
     oks_nms B (Tensor CPU dt rows) iou_thr sigmas device_id
   \<and> oks_nms_vis B (NdArray dt rows) iou_thr sigmas vis_thr None =
     oks_nms B (NdArray dt rows) iou_thr sigmas None"
  by (simp add: oks_nms_vis_def oks_nms_def Let_def)

lemma sigmas_tensor_exact:
  assumes "list_all (\<lambda>s. astype B Float64 (s / 10) = s / 10 \<and> astype B Float32 (s / 10) = s / 10)
             sigmas"
  shows "sigmas_tensor B sigmas = map (\<lambda>s. s / 10) sigmas"
proof -
  have "astype B Float32 (astype B Float64 (s / 10)) = s / 10" if "s \<in> set sigmas" for s
  proof -
    from assms that
    have e: "astype B Float64 (s / 10) = s / 10" "astype B Float32 (s / 10) = s / 10"
      unfolding list_all_iff by blast+
    show ?thesis
      by (simp only: e)
  qed
  then have "map (\<lambda>s. astype B Float32 (astype B Float64 (s / 10))) sigmas =
             map (\<lambda>s. s / 10) sigmas"
    by (rule map_cong [OF refl])
  then show ?thesis
    by (simp only: sigmas_tensor_def map_map o_def)
qed


text \<open>
  Claim C10. On a tensor or a numpy array with at least one candidate, \<^verbatim>\<open>oks_nms\<close> (either
  definition) and \<^verbatim>\<open>oks_nms_vis\<close> invoke their backends with the sigma tensor of the first two
  lines of the body, and return \<^verbatim>\<open>kpts[inds, :], inds\<close> for the indices the backend answered:
  the run is the one written out below, on the accelerator branch and on the host branch. The
  sigma tensor holds the caller's sigmas divided by ten, as Python floats packed into a
  float32 tensor; it is the list of the quotients themselves when these conversions leave the
  quotients as they are. The caller's sigmas enter a run through this tensor only.
\<close>

theorem sigmas_divided_by_ten:
  "(list_all (\<lambda>s. astype B Float64 (s / 10) = s / 10 \<and> astype B Float32 (s / 10) = s / 10) sigmas
      \<longrightarrow> sigmas_tensor B sigmas = map (\<lambda>s. s / 10) sigmas)
   \<and> oks_nms_shadowed B kpts iou_thr sigmas device_id = oks_nms B kpts iou_thr sigmas device_id
   \<and> oks_nms B (Tensor (CUDA i) dt (r # rows)) iou_thr sigmas device_id =
       ([OksNmsCuda (Tensor (CUDA i) dt (r # rows)) iou_thr (sigmas_tensor B sigmas)],
        case oks_nms_cuda_oks_nms B (Tensor (CUDA i) dt (r # rows)) iou_thr
               (sigmas_tensor B sigmas) of
          Inl e \<Rightarrow> Inl e
        | Inr vs \<Rightarrow> kept_at (Tensor (CUDA i) dt (r # rows)) (Tensor (CUDA i) Int64 vs))
   \<and> oks_nms B (NdArray dt (r # rows)) iou_thr sigmas (Some i) =
       ([OksNmsCuda (Tensor (CUDA i) dt (r # rows)) iou_thr (sigmas_tensor B sigmas)],
        case oks_nms_cuda_oks_nms B (Tensor (CUDA i) dt (r # rows)) iou_thr
               (sigmas_tensor B sigmas) of
          Inl e \<Rightarrow> Inl e
        | Inr vs \<Rightarrow> kept_at (NdArray dt (r # rows)) (NdArray Int64 vs))
   \<and> oks_nms B (Tensor CPU dt (r # rows)) iou_thr sigmas device_id =
       (case oks_nms_cpu_oks_nms B (Tensor CPU dt (r # rows)) iou_thr (sigmas_tensor B sigmas) of
          Inl e \<Rightarrow>
            ([OksNmsCpu (Tensor CPU dt (r # rows)) iou_thr (sigmas_tensor B sigmas)], Inl e)
        | Inr vs \<Rightarrow>
            ([OksNmsCpu (Tensor CPU dt (r # rows)) iou_thr (sigmas_tensor B sigmas),
              OksNmsPy (NdArray dt (r # rows)) iou_thr (sigmas_tensor B sigmas)],
             case oks_nms_py_oks_nms B (NdArray dt (r # rows)) iou_thr (sigmas_tensor B sigmas) of
               Inl e \<Rightarrow> Inl e
             | Inr vs_py \<Rightarrow> kept_at (Tensor CPU dt (r # rows)) (Tensor CPU Int64 vs)))
   \<and> oks_nms B (NdArray dt (r # rows)) iou_thr sigmas None =
       (case oks_nms_cpu_oks_nms B (Tensor CPU dt (r # rows)) iou_thr (sigmas_tensor B sigmas) of
          Inl e \<Rightarrow>
            ([OksNmsCpu (Tensor CPU dt (r # rows)) iou_thr (sigmas_tensor B sigmas)], Inl e)
        | Inr vs \<Rightarrow>
            ([OksNmsCpu (Tensor CPU dt (r # rows)) iou_thr (sigmas_tensor B sigmas),
              OksNmsPy (NdArray dt (r # rows)) iou_thr (sigmas_tensor B sigmas)],
             case oks_nms_py_oks_nms B (NdArray dt (r # rows)) iou_thr (sigmas_tensor B sigmas) of
               Inl e \<Rightarrow> Inl e
             | Inr vs_py \<Rightarrow> kept_at (NdArray dt (r # rows)) (NdArray Int64 vs)))
   \<and> oks_nms_vis B (Tensor (CUDA i) dt (r # rows)) iou_thr sigmas vis_thr device_id =
       ([OksNmsVisCuda (Tensor (CUDA i) dt (r # rows)) iou_thr vis_thr (sigmas_tensor B sigmas)],
        case oks_nms_vis_cuda_oks_nms B (Tensor (CUDA i) dt (r # rows)) iou_thr vis_thr
               (sigmas_tensor B sigmas) of
          Inl e \<Rightarrow> Inl e
        | Inr vs \<Rightarrow> kept_at (Tensor (CUDA i) dt (r # rows)) (Tensor (CUDA i) Int64 vs))
   \<and> oks_nms_vis B (NdArray dt (r # rows)) iou_thr sigmas vis_thr (Some i) =
       ([OksNmsVisCuda (Tensor (CUDA i) dt (r # rows)) iou_thr vis_thr (sigmas_tensor B sigmas)],
        case oks_nms_vis_cuda_oks_nms B (Tensor (CUDA i) dt (r # rows)) iou_thr vis_thr
               (sigmas_tensor B sigmas) of
          Inl e \<Rightarrow> Inl e
        | Inr vs \<Rightarrow> kept_at (NdArray dt (r # rows)) (NdArray Int64 vs))
   \<and> oks_nms_vis B (Tensor CPU dt rows) iou_thr sigmas vis_thr device_id =
       oks_nms B (Tensor CPU dt rows) iou_thr sigmas device_id
   \<and> oks_nms_vis B (NdArray dt rows) iou_thr sigmas vis_thr None =
       oks_nms B (NdArray dt rows) iou_thr sigmas None"
  by (intro conjI impI;
      (erule sigmas_tensor_exact | rule oks_nms_shadowed_eq | rule oks_nms_cuda_run
       | rule oks_nms_cuda_run_numpy | rule oks_nms_host_run | rule oks_nms_host_run_numpy
       | rule oks_nms_vis_cuda_run | rule oks_nms_vis_cuda_run_numpy
       | rule oks_nms_vis_host_run [THEN conjunct1]
       | rule oks_nms_vis_host_run [THEN conjunct2]))

theorem sigmas_divided_by_ten_witness:
  "list_all
     (\<lambda>s. astype spec_backends Float64 (s / 10) = s / 10
          \<and> astype spec_backends Float32 (s / 10) = s / 10)
     [1 / 4, 1 / 2]
   \<and> sigmas_tensor spec_backends [1 / 4, 1 / 2] = map (\<lambda>s. s / 10) [1 / 4, 1 / 2]
   \<and> oks_nms spec_backends (NdArray Float32 [[1, 2, 1, 9 / 10]]) (7 / 10) [1 / 4, 1 / 2] None =
       ([OksNmsCpu (Tensor CPU Float32 [[1, 2, 1, 9 / 10]]) (7 / 10) [1 / 40, 1 / 20],
         OksNmsPy (NdArray Float32 [[1, 2, 1, 9 / 10]]) (7 / 10) [1 / 40, 1 / 20]],
        Inr (NdArray Float32 [[1, 2, 1, 9 / 10]], NdArray Int64 [0]))
   \<and> oks_nms_shadowed spec_backends (Tensor (CUDA 0) Float32 [[1, 2, 1, 9 / 10]]) (7 / 10)
         [1 / 4, 1 / 2] None =
       ([OksNmsCuda (Tensor (CUDA 0) Float32 [[1, 2, 1, 9 / 10]]) (7 / 10) [1 / 40, 1 / 20]],
        Inr (Tensor (CUDA 0) Float32 [[1, 2, 1, 9 / 10]], Tensor (CUDA 0) Int64 [0]))
   \<and> oks_nms_vis spec_backends (NdArray Float32 [[1, 2, 1, 9 / 10]]) (7 / 10) [1 / 4, 1 / 2]
         (1 / 10) (Some 0) =
       ([OksNmsVisCuda (Tensor (CUDA 0) Float32 [[1, 2, 1, 9 / 10]]) (7 / 10) (1 / 10)
           [1 / 40, 1 / 20]],
        Inr (NdArray Float32 [[1, 2, 1, 9 / 10]], NdArray Int64 [0]))"
proof -
  have h: "list_all
     (\<lambda>s. astype spec_backends Float64 (s / 10) = s / 10
          \<and> astype spec_backends Float32 (s / 10) = s / 10)
     [1 / 4, 1 / 2]"
    by (simp add: spec_backends_def)
  note exact = sigmas_divided_by_ten [THEN conjunct1, THEN mp, OF h]
  have a: "oks_nms spec_backends (NdArray Float32 [[1, 2, 1, 9 / 10]]) (7 / 10)
         [1 / 4, 1 / 2] None =
       ([OksNmsCpu (Tensor CPU Float32 [[1, 2, 1, 9 / 10]]) (7 / 10) [1 / 40, 1 / 20],
         OksNmsPy (NdArray Float32 [[1, 2, 1, 9 / 10]]) (7 / 10) [1 / 40, 1 / 20]],
        Inr (NdArray Float32 [[1, 2, 1, 9 / 10]], NdArray Int64 [0]))"
    by (simp add: run_simps)
  have b: "oks_nms_shadowed spec_backends (Tensor (CUDA 0) Float32 [[1, 2, 1, 9 / 10]]) (7 / 10)
         [1 / 4, 1 / 2] None =
       ([OksNmsCuda (Tensor (CUDA 0) Float32 [[1, 2, 1, 9 / 10]]) (7 / 10) [1 / 40, 1 / 20]],
        Inr (Tensor (CUDA 0) Float32 [[1, 2, 1, 9 / 10]], Tensor (CUDA 0) Int64 [0]))"
    by (simp add: run_simps oks_nms_shadowed_def)
  have c: "oks_nms_vis spec_backends (NdArray Float32 [[1, 2, 1, 9 / 10]]) (7 / 10)
         [1 / 4, 1 / 2] (1 / 10) (Some 0) =
       ([OksNmsVisCuda (Tensor (CUDA 0) Float32 [[1, 2, 1, 9 / 10]]) (7 / 10) (1 / 10)
           [1 / 40, 1 / 20]],
        Inr (NdArray Float32 [[1, 2, 1, 9 / 10]], NdArray Int64 [0]))"
    by (simp add: run_simps)
  from h exact a b c show ?thesis
    by (intro conjI)
qed

subsection \<open>Zero candidates\<close>

lemma soft_nms_cpu_spec_empty:
  "decay_of_code code = Some d \<Longrightarrow>
   soft_nms_cpu_spec ov (NdArray dt []) iou_thr code sigma min_score = Inr ([], [])"
  by (simp add: soft_nms_cpu_spec_def enumerate_rows_def shape0_def by_score_def
      soft_select.simps)

text \<open>
  Claim C2, as the source has it. For a tensor or a numpy array without candidates \<^verbatim>\<open>nms\<close>,
  \<^verbatim>\<open>oks_nms\<close> and \<^verbatim>\<open>oks_nms_vis\<close> return an empty kept set and an empty index sequence in
  the caller's container, raise nothing and invoke no backend. \<^verbatim>\<open>soft_nms\<close> has no such
  guard: with a known method it invokes \<^verbatim>\<open>soft_nms_cpu\<close> once, on the empty candidate set, and
  returns what that returns, which is the empty result with the backend of the specification.
\<close>

theorem zero_candidates:
  "nms B (Tensor dev dt []) iou_thr device_id = ([], Inr (Tensor dev dt [], Tensor dev Int64 []))
   \<and> nms B (NdArray dt []) iou_thr device_id = ([], Inr (NdArray dt [], NdArray Int64 []))
   \<and> oks_nms B (Tensor dev dt []) iou_thr sigmas device_id =
       ([], Inr (Tensor dev dt [], Tensor dev Int64 []))
   \<and> oks_nms B (NdArray dt []) iou_thr sigmas device_id =
       ([], Inr (NdArray dt [], NdArray Int64 []))
   \<and> oks_nms_vis B (Tensor dev dt []) iou_thr sigmas vis_thr device_id =
       ([], Inr (Tensor dev dt [], Tensor dev Int64 []))
   \<and> oks_nms_vis B (NdArray dt []) iou_thr sigmas vis_thr device_id =
       ([], Inr (NdArray dt [], NdArray Int64 []))
   \<and> fst (soft_nms B (Tensor dev dt []) iou_thr ''linear'' sigma min_score) =
       [SoftNmsCpu (NdArray dt []) iou_thr 1 sigma min_score]
   \<and> fst (soft_nms B (NdArray dt []) iou_thr ''linear'' sigma min_score) =
       [SoftNmsCpu (NdArray dt []) iou_thr 1 sigma min_score]
   \<and> fst (soft_nms B (Tensor dev dt []) iou_thr ''gaussian'' sigma min_score) =
       [SoftNmsCpu (NdArray dt []) iou_thr 2 sigma min_score]
   \<and> fst (soft_nms B (NdArray dt []) iou_thr ''gaussian'' sigma min_score) =
       [SoftNmsCpu (NdArray dt []) iou_thr 2 sigma min_score]
   \<and> snd (soft_nms (B\<lparr>soft_nms_cpu := soft_nms_cpu_spec ov\<rparr>) (Tensor dev dt []) iou_thr
            ''linear'' sigma min_score) =
       Inr (Tensor dev dt [], Tensor dev Int64 [])
   \<and> snd (soft_nms (B\<lparr>soft_nms_cpu := soft_nms_cpu_spec ov\<rparr>) (NdArray dt []) iou_thr
            ''linear'' sigma min_score) =
       Inr (NdArray Float32 [], NdArray Int64 [])"
proof -
  have lin: "decay_of_code (Suc 0) = Some Linear"
    by (simp add: decay_of_code_def)
  note empty = soft_nms_cpu_spec_empty [OF lin]
  show ?thesis
    by (simp add: nms_def oks_nms_def oks_nms_vis_def soft_nms_def method_codes_def Let_def
        shape0_def new_zeros_long_def long_tensor_def getitem_rows_def empty)
qed

theorem zero_candidates_counterexample:
  "shape0 (NdArray Float32 ([] :: real list list)) = 0
   \<and> soft_nms spec_backends (NdArray Float32 []) (7 / 10) ''linear'' (1 / 2) (1 / 1000) =
       ([SoftNmsCpu (NdArray Float32 []) (7 / 10) 1 (1 / 2) (1 / 1000)],
        Inr (NdArray Float32 [], NdArray Int64 []))"
  by (simp add: run_simps)

subsection \<open>The container of the result\<close>

lemma getitem_rows_container:
  "getitem_rows x ix = Inr kept \<Longrightarrow>
   family_of kept = family_of x \<and> dtype_of kept = dtype_of x \<and> device_of kept = device_of x"
  by (cases x) (auto simp: getitem_rows_def Let_def split: if_splits)

lemma nms_container:
  "snd (nms B x iou_thr device_id) = Inr (kept, ix) \<Longrightarrow>
   family_of kept = family_of x \<and> family_of ix = family_of x
   \<and> dtype_of kept = dtype_of x \<and> dtype_of ix = Some Int64"
  by (cases x)
     (auto simp: nms_def Let_def long_tensor_def new_zeros_long_def map_sum_id_Inr
        dest!: getitem_rows_container split: if_splits sum.splits)

lemma oks_nms_container:
  "snd (oks_nms B x iou_thr sigmas device_id) = Inr (kept, ix) \<Longrightarrow>
   family_of kept = family_of x \<and> family_of ix = family_of x
   \<and> dtype_of kept = dtype_of x \<and> dtype_of ix = Some Int64"
  by (cases x)
     (auto simp: oks_nms_def Let_def long_tensor_def new_zeros_long_def map_sum_id_Inr
        dest!: getitem_rows_container split: if_splits sum.splits)

lemma oks_nms_vis_container:
  "snd (oks_nms_vis B x iou_thr sigmas vis_thr device_id) = Inr (kept, ix) \<Longrightarrow>
   family_of kept = family_of x \<and> family_of ix = family_of x
   \<and> dtype_of kept = dtype_of x \<and> dtype_of ix = Some Int64"
  by (cases x)
     (auto simp: oks_nms_vis_def Let_def long_tensor_def new_zeros_long_def map_sum_id_Inr
        dest!: getitem_rows_container split: if_splits sum.splits)

lemma soft_nms_container:
  "snd (soft_nms B x iou_thr method sigma min_score) = Inr (kept, ix) \<Longrightarrow>
   family_of kept = family_of x \<and> family_of ix = family_of x
   \<and> dtype_of kept = (if family_of x = Some TensorFamily then dtype_of x else Some Float32)
   \<and> dtype_of ix = Some Int64"
  by (cases x)
     (auto simp: soft_nms_def Let_def long_tensor_def split: if_splits sum.splits option.splits)

text \<open>
  Claim C3, as the source has it. Whenever an entry point returns, the kept candidates and
  the indices come in the representation family of the input, and the indices are 64-bit
  integers. \<^verbatim>\<open>nms\<close>, \<^verbatim>\<open>oks_nms\<close> and \<^verbatim>\<open>oks_nms_vis\<close> keep the element type of the input,
  and so does \<^verbatim>\<open>soft_nms\<close> for a tensor; for a numpy array \<^verbatim>\<open>soft_nms\<close> returns \<^verbatim>\<open>float32\<close>
  candidates, whatever the element type of the input is.
\<close>

theorem container_of_result:
  "(snd (nms B x iou_thr device_id) = Inr (kept, ix)
      \<longrightarrow> family_of kept = family_of x \<and> family_of ix = family_of x
          \<and> dtype_of kept = dtype_of x \<and> dtype_of ix = Some Int64)
   \<and> (snd (oks_nms B x iou_thr sigmas device_id) = Inr (kept, ix)
      \<longrightarrow> family_of kept = family_of x \<and> family_of ix = family_of x
          \<and> dtype_of kept = dtype_of x \<and> dtype_of ix = Some Int64)
   \<and> (snd (oks_nms_vis B x iou_thr sigmas vis_thr device_id) = Inr (kept, ix)
      \<longrightarrow> family_of kept = family_of x \<and> family_of ix = family_of x
          \<and> dtype_of kept = dtype_of x \<and> dtype_of ix = Some Int64)
   \<and> (snd (soft_nms B x iou_thr method sigma min_score) = Inr (kept, ix)
      \<longrightarrow> family_of kept = family_of x \<and> family_of ix = family_of x
          \<and> dtype_of kept = (if family_of x = Some TensorFamily then dtype_of x else Some Float32)
          \<and> dtype_of ix = Some Int64)"
  by (intro conjI impI;
      (erule nms_container [THEN conjunct1]
       | erule nms_container [THEN conjunct2, THEN conjunct1]
       | erule nms_container [THEN conjunct2, THEN conjunct2, THEN conjunct1]
       | erule nms_container [THEN conjunct2, THEN conjunct2, THEN conjunct2]
       | erule oks_nms_container [THEN conjunct1]
       | erule oks_nms_container [THEN conjunct2, THEN conjunct1]
       | erule oks_nms_container [THEN conjunct2, THEN conjunct2, THEN conjunct1]
       | erule oks_nms_container [THEN conjunct2, THEN conjunct2, THEN conjunct2]
       | erule oks_nms_vis_container [THEN conjunct1]
       | erule oks_nms_vis_container [THEN conjunct2, THEN conjunct1]
       | erule oks_nms_vis_container [THEN conjunct2, THEN conjunct2, THEN conjunct1]
       | erule oks_nms_vis_container [THEN conjunct2, THEN conjunct2, THEN conjunct2]
       | erule soft_nms_container [THEN conjunct1]
       | erule soft_nms_container [THEN conjunct2, THEN conjunct1]
       | erule soft_nms_container [THEN conjunct2, THEN conjunct2, THEN conjunct1]
       | erule soft_nms_container [THEN conjunct2, THEN conjunct2, THEN conjunct2]))

theorem container_of_result_counterexample:
  "snd (soft_nms spec_backends (NdArray Float64 [[0, 0, 2, 2, 9 / 10]]) (7 / 10) ''linear''
          (1 / 2) (1 / 1000)) =
     Inr (NdArray Float32 [[0, 0, 2, 2, 9 / 10]], NdArray Int64 [0])
   \<and> dtype_of (NdArray Float32 [[0, 0, 2, 2, 9 / 10 :: real]]) \<noteq>
      dtype_of (NdArray Float64 [[0, 0, 2, 2, 9 / 10 :: real]])"
  by (simp add: run_simps)

theorem container_of_result_witness:
  "snd (nms spec_backends (NdArray Float64 [[0, 0, 2, 2, 9 / 10], [0, 0, 2, 1, 4 / 5]])
          (3 / 10) (Some 0)) =
     Inr (NdArray Float64 [[0, 0, 2, 2, 9 / 10]], NdArray Int64 [0])
   \<and> family_of (NdArray Float64 [[0, 0, 2, 2, 9 / 10 :: real]]) =
      family_of (NdArray Float64 [[0, 0, 2, 2, 9 / 10], [0, 0, 2, 1, 4 / 5 :: real]])
   \<and> dtype_of (NdArray Float64 [[0, 0, 2, 2, 9 / 10 :: real]]) =
      dtype_of (NdArray Float64 [[0, 0, 2, 2, 9 / 10], [0, 0, 2, 1, 4 / 5 :: real]])
   \<and> snd (oks_nms spec_backends (Tensor CPU Float32 [[1, 2, 1, 9 / 10]]) (7 / 10)
          [1 / 4, 1 / 2] None) =
     Inr (Tensor CPU Float32 [[1, 2, 1, 9 / 10]], Tensor CPU Int64 [0])
   \<and> family_of (Tensor CPU Int64 [0 :: int]) =
      family_of (Tensor CPU Float32 [[1, 2, 1, 9 / 10 :: real]])
   \<and> snd (oks_nms_vis spec_backends (Tensor (CUDA 0) Float16 [[1, 2, 1, 9 / 10]]) (7 / 10)
          [1 / 4, 1 / 2] (1 / 10) None) =
     Inr (Tensor (CUDA 0) Float16 [[1, 2, 1, 9 / 10]], Tensor (CUDA 0) Int64 [0])
   \<and> dtype_of (Tensor (CUDA 0) Int64 [0 :: int]) = Some Int64
   \<and> snd (soft_nms spec_backends (Tensor (CUDA 0) Float32 [[0, 0, 2, 2, 9 / 10]]) (7 / 10)
          ''gaussian'' (1 / 2) (1 / 1000)) =
     Inr (Tensor (CUDA 0) Float32 [[0, 0, 2, 2, 9 / 10]], Tensor (CUDA 0) Int64 [0])
   \<and> dtype_of (Tensor (CUDA 0) Float32 [[0, 0, 2, 2, 9 / 10 :: real]]) =
      (if family_of (Tensor (CUDA 0) Float32 [[0, 0, 2, 2, 9 / 10 :: real]]) = Some TensorFamily
       then dtype_of (Tensor (CUDA 0) Float32 [[0, 0, 2, 2, 9 / 10 :: real]])
       else Some Float32)"
proof -
  have a: "snd (nms spec_backends (NdArray Float64 [[0, 0, 2, 2, 9 / 10], [0, 0, 2, 1, 4 / 5]])
          (3 / 10) (Some 0)) =
     Inr (NdArray Float64 [[0, 0, 2, 2, 9 / 10]], NdArray Int64 [0])"
    by (simp add: run_simps)
  have b: "snd (oks_nms spec_backends (Tensor CPU Float32 [[1, 2, 1, 9 / 10]]) (7 / 10)
          [1 / 4, 1 / 2] None) =
     Inr (Tensor CPU Float32 [[1, 2, 1, 9 / 10]], Tensor CPU Int64 [0])"
    by (simp add: run_simps)
  have c: "snd (oks_nms_vis spec_backends (Tensor (CUDA 0) Float16 [[1, 2, 1, 9 / 10]]) (7 / 10)
          [1 / 4, 1 / 2] (1 / 10) None) =
     Inr (Tensor (CUDA 0) Float16 [[1, 2, 1, 9 / 10]], Tensor (CUDA 0) Int64 [0])"
    by (simp add: run_simps)
  have d: "snd (soft_nms spec_backends (Tensor (CUDA 0) Float32 [[0, 0, 2, 2, 9 / 10]]) (7 / 10)
          ''gaussian'' (1 / 2) (1 / 1000)) =
     Inr (Tensor (CUDA 0) Float32 [[0, 0, 2, 2, 9 / 10]], Tensor (CUDA 0) Int64 [0])"
    by (simp add: run_simps)
  note a' = container_of_result [THEN conjunct1, THEN mp, OF a]
  note b' = container_of_result [THEN conjunct2, THEN conjunct1, THEN mp, OF b]
  note c' = container_of_result [THEN conjunct2, THEN conjunct2, THEN conjunct1, THEN mp, OF c]
  note d' = container_of_result [THEN conjunct2, THEN conjunct2, THEN conjunct2, THEN mp, OF d]
  from a b c d
    a' [THEN conjunct1]
    a' [THEN conjunct2, THEN conjunct2, THEN conjunct1]
    b' [THEN conjunct2, THEN conjunct1]
    c' [THEN conjunct2, THEN conjunct2, THEN conjunct2]
    d' [THEN conjunct2, THEN conjunct2, THEN conjunct1]
  show ?thesis
    by (intro conjI)
qed

subsection \<open>The backend that runs\<close>








subsection \<open>What is returned\<close>








lemma enumerate_rows_elems: "elems y = elems x \<Longrightarrow> enumerate_rows y = enumerate_rows x"
  by (simp add: enumerate_rows_def shape0_def)
















lemma decayed_rows_at_elems:
  "elems y = elems x \<Longrightarrow>
   decayed_rows_at ov d t s y new_dets vs = decayed_rows_at ov d t s x new_dets vs"
  by (simp add: decayed_rows_at_def)















end
